theory Spec2Isabelle
  imports Main
begin

section \<open>JavaScript values\<close>

text \<open>
  The values that handlers, the keyed data store and thrown failures carry. Numbers are
  the integral ones (a double holds every integer of magnitude below \<open>2^53\<close> exactly and
  prints it in plain decimal); fractions, NaN and the infinities are not represented.
  \<open>JError m\<close> is an \<open>Error\<close> instance with message \<open>m\<close>; arrays and objects are plain data
  that inherit the standard conversions.
\<close>

datatype jsval =
    Undefined
  | Null
  | JBool bool
  | JNum int
  | JStr string
  | JError string
  | JArray "jsval list"
  | JObject "(string \<times> jsval) list"

text \<open>Decimal digits of a natural number, most significant first.\<close>

fun digits :: "nat \<Rightarrow> string" where
  "digits n =
     (if n < 10 then [''0123456789'' ! n]
      else digits (n div 10) @ [''0123456789'' ! (n mod 10)])"

declare digits.simps [simp del]

text \<open>String concatenation with a number operand, \<open>'' + n\<close>, for an integral \<open>n\<close>.\<close>

definition Number_toString :: "int \<Rightarrow> string" where
  "Number_toString n =
     (if n < 0 then CHR ''-'' # digits (nat (- n)) else digits (nat n))"

fun join :: "string \<Rightarrow> string list \<Rightarrow> string" where
  "join sep [] = []"
| "join sep [s] = s"
| "join sep (s # t # ss) = s @ sep @ join sep (t # ss)"

text \<open>The conversion a string concatenation \<open>"..." + v\<close> applies to \<open>v\<close>.\<close>

fun ToString :: "jsval \<Rightarrow> string" where
  "ToString Undefined = ''undefined''"
| "ToString Null = ''null''"
| "ToString (JBool b) = (if b then ''true'' else ''false'')"
| "ToString (JNum n) = Number_toString n"
| "ToString (JStr s) = s"
| "ToString (JError m) = (if m = [] then ''Error'' else ''Error: '' @ m)"
| "ToString (JArray vs) =
     join '','' (map (\<lambda>v. if v = Undefined \<or> v = Null then [] else ToString v) vs)"
| "ToString (JObject ps) = ''[object Object]''"

text \<open>\<open>e?.toString()\<close>: the optional call yields \<open>undefined\<close> on \<open>undefined\<close> and \<open>null\<close>.\<close>

definition optional_toString :: "jsval \<Rightarrow> jsval" where
  "optional_toString e =
     (if e = Undefined \<or> e = Null then Undefined else JStr (ToString e))"

text \<open>
  A promise is known by how it ends: \<open>Some (Fulfilled v)\<close>, \<open>Some (Rejected e)\<close>, or
  \<open>None\<close> when it stays pending for ever. A call of user code returns a plain value,
  throws, or returns a promise.
\<close>

datatype settled = Fulfilled jsval | Rejected jsval

type_synonym promise = "settled option"

datatype completion = Return jsval | Throw jsval | ReturnPromise promise

section \<open>The keyed data store\<close>

text \<open>
  \<open>cfg.data\<close> is an object used as a dictionary: its own properties are a map from keys
  to values. A key may be present with the value \<open>undefined\<close> (\<open>Some Undefined\<close>), which
  a read \<open>data[key]\<close> cannot tell from an absent key. Keys are taken not to name a member
  that the object inherits, such as \<open>constructor\<close>.
\<close>

type_synonym store = "string \<rightharpoonup> jsval"

definition lookup :: "store \<Rightarrow> string \<Rightarrow> jsval" where
  "lookup data key = (case data key of None \<Rightarrow> Undefined | Some v \<Rightarrow> v)"

text \<open>
  What a call of \<open>data_fn\<close> hands back at once: a value, an exception of the closure, or
  a new promise that awaits the closure's promise \<open>out\<close>.
\<close>

datatype data_result = Returned jsval | Threw jsval | Awaiting promise

text \<open>
  The default \<open>cfg.data_fn\<close> installed by \<open>apply\<close>, with the store passed in and
  returned. \<open>closure = None\<close> is the omitted (falsy) third argument.
\<close>

definition data_fn ::
  "store \<Rightarrow> string \<Rightarrow> jsval \<Rightarrow> (jsval \<Rightarrow> completion) option \<Rightarrow> data_result \<times> store" where
  "data_fn data key def closure =
     (let val = lookup data key in
      if val = Undefined then (Returned def, data(key \<mapsto> def))
      else
        (case closure of
           Some f \<Rightarrow>
             (case f val of
                ReturnPromise out \<Rightarrow> (Awaiting out, data)
              | Return out \<Rightarrow> (Returned out, data(key \<mapsto> out))
              | Throw e \<Rightarrow> (Threw e, data))
         | None \<Rightarrow> (Returned val, data)))"

text \<open>
  The body of the executor after \<open>await out\<close>, run against the store as it is when
  \<open>out\<close> settles: \<open>ok(data[key] = val)\<close> on fulfilment, \<open>err(e?.toString())\<close> on
  rejection. The first component is how the promise returned by \<open>data_fn\<close> settles.
\<close>

fun data_fn_resume :: "store \<Rightarrow> string \<Rightarrow> settled \<Rightarrow> settled \<times> store" where
  "data_fn_resume data key (Fulfilled val) = (Fulfilled val, data(key \<mapsto> val))"
| "data_fn_resume data key (Rejected e) = (Rejected (optional_toString e), data)"

text \<open>
  The returned promise and the store once \<open>out\<close> has run its course; \<open>None\<close> when \<open>out\<close>
  never settles, in which case nothing is written and the caller waits for ever.
\<close>

definition data_fn_settle :: "store \<Rightarrow> string \<Rightarrow> promise \<Rightarrow> (settled \<times> store) option" where
  "data_fn_settle data key out = map_option (data_fn_resume data key) out"

section \<open>The loopback client\<close>

text \<open>
  The second argument of \<open>fetch\<close>. \<open>init_body\<close> holds the value whose JSON text
  (\<open>JSON.stringify(body)\<close>) is the request body.
\<close>

record request_init =
  init_method :: "string option"
  init_headers :: "(string \<times> string) list option"
  init_body :: "jsval option"

text \<open>A call of the platform's \<open>fetch\<close>: the URL and the init object, if one is passed.\<close>

type_synonym fetch_call = "string \<times> request_init option"

text \<open>
  The function stored in the \<open>fetch\<close> property of \<open>LOOPBACK\<close>: the one of the object
  literal, or the one that \<open>apply\<close> assigns over it for its port.
\<close>

datatype fetch_impl = Direct | ViaLocalhost int

text \<open>
  The receiver of a loopback method. \<open>this_headers\<close> is its \<open>headers\<close> property: the
  request's headers when the method is called on an augmented request, absent when it is
  called on \<open>LOOPBACK\<close> itself.
\<close>

record loopback_obj =
  this_fetch :: fetch_impl
  this_headers :: "(string \<times> string) list option"

definition LOOPBACK :: loopback_obj where
  "LOOPBACK = \<lparr>this_fetch = Direct, this_headers = None\<rparr>"

text \<open>\<open>Object.assign(obj, {k: v})\<close> on an object kept as its list of properties.\<close>

fun assign :: "(string \<times> 'v) list \<Rightarrow> string \<Rightarrow> 'v \<Rightarrow> (string \<times> 'v) list" where
  "assign [] k v = [(k, v)]"
| "assign ((k', v') # ps) k v = (if k' = k then (k, v) # ps else (k', v') # assign ps k v)"

definition user_agent :: "loopback_obj \<Rightarrow> string" where
  "user_agent this =
     (case this_headers this of
        None \<Rightarrow> ''Loopback''
      | Some hs \<Rightarrow>
          (case map_of hs ''user-agent'' of
             None \<Rightarrow> ''Loopback''
           | Some ua \<Rightarrow> if ua \<noteq> [] then ua else ''Loopback''))"

text \<open>\<open>this.fetch(path, init)\<close>: the call of the platform's \<open>fetch\<close> that it makes.\<close>

definition fetch :: "loopback_obj \<Rightarrow> string \<Rightarrow> request_init option \<Rightarrow> fetch_call" where
  "fetch this path init' =
     (case this_fetch this of
        Direct \<Rightarrow> (path, init')
      | ViaLocalhost port \<Rightarrow>
          (let ua = user_agent this;
               init = (case init' of
                         None \<Rightarrow> \<lparr>init_method = None, init_headers = None, init_body = None\<rparr>
                       | Some i \<Rightarrow> i);
               hs = assign (case init_headers init of None \<Rightarrow> [] | Some h \<Rightarrow> h)
                      ''user-agent'' ua
           in (''http://localhost:'' @ Number_toString port @ path,
               Some (init\<lparr>init_headers := Some hs\<rparr>))))"

text \<open>A response as \<open>handle_body\<close> reads it.\<close>

record response =
  resp_status :: nat
  resp_content_type :: "string option"
  resp_body :: string

text \<open>\<open>s.includes(pat)\<close>; \<open>includes\<close> is a keyword here.\<close>

fun starts_with :: "string \<Rightarrow> string \<Rightarrow> bool" where
  "starts_with s [] = True"
| "starts_with [] (p # ps) = False"
| "starts_with (c # s) (p # ps) = (c = p \<and> starts_with s ps)"

fun includes_str :: "string \<Rightarrow> string \<Rightarrow> bool" where
  "includes_str [] pat = (pat = [])"
| "includes_str (c # s) pat = (starts_with (c # s) pat \<or> includes_str s pat)"

text \<open>
  Which reader of the response \<open>handle_body\<close> calls: \<open>resp.json()\<close>, which parses the
  body as JSON, or \<open>resp.text()\<close>, which yields the body as a string.
\<close>

datatype body_read = ReadJson string | ReadText string

definition handle_body :: "response \<Rightarrow> body_read" where
  "handle_body resp =
     (let typ = (case resp_content_type resp of
                   None \<Rightarrow> []
                 | Some t \<Rightarrow> if t \<noteq> [] then t else [])
      in if includes_str typ ''application/json'' then ReadJson (resp_body resp)
         else ReadText (resp_body resp))"

text \<open>
  The platform's \<open>fetch\<close> is a parameter \<open>net\<close>: it rejects with a transport failure
  (\<open>Inl\<close>) or fulfils with a response. \<open>.then(handle_body)\<close> passes a rejection on.
\<close>

type_synonym network = "fetch_call \<Rightarrow> jsval + response"

definition then_handle_body :: "jsval + response \<Rightarrow> jsval + body_read" where
  "then_handle_body r = (case r of Inl e \<Rightarrow> Inl e | Inr resp \<Rightarrow> Inr (handle_body resp))"

definition json_init :: "string \<Rightarrow> jsval \<Rightarrow> request_init" where
  "json_init m body =
     \<lparr>init_method = Some m,
      init_headers = Some [(''Content-Type'', ''application/json'')],
      init_body = Some body\<rparr>"

definition LOOPBACK_get :: "network \<Rightarrow> loopback_obj \<Rightarrow> string \<Rightarrow> jsval + body_read" where
  "LOOPBACK_get net this path = then_handle_body (net (fetch this path None))"

definition LOOPBACK_post ::
  "network \<Rightarrow> loopback_obj \<Rightarrow> string \<Rightarrow> jsval \<Rightarrow> jsval + body_read" where
  "LOOPBACK_post net this path body =
     then_handle_body (net (fetch this path (Some (json_init ''POST'' body))))"

definition LOOPBACK_delete :: "network \<Rightarrow> loopback_obj \<Rightarrow> string \<Rightarrow> jsval + body_read" where
  "LOOPBACK_delete net this path =
     then_handle_body (net (fetch this path
        (Some \<lparr>init_method = Some ''DELETE'', init_headers = None, init_body = None\<rparr>)))"

definition LOOPBACK_patch ::
  "network \<Rightarrow> loopback_obj \<Rightarrow> string \<Rightarrow> jsval \<Rightarrow> jsval + body_read" where
  "LOOPBACK_patch net this path body =
     then_handle_body (net (fetch this path (Some (json_init ''PATCH'' body))))"

definition LOOPBACK_put ::
  "network \<Rightarrow> loopback_obj \<Rightarrow> string \<Rightarrow> jsval \<Rightarrow> jsval + body_read" where
  "LOOPBACK_put net this path body =
     then_handle_body (net (fetch this path (Some (json_init ''PUT'' body))))"

section \<open>Requests and the wrapped handler\<close>

text \<open>
  An inbound request: its headers, whether the \<open>data\<close> accessor has been attached, and
  the \<open>fetch\<close> copied onto it together with the five loopback methods (\<open>None\<close> before
  \<open>loopback\<close> has run).
\<close>

record request =
  req_headers :: "(string \<times> string) list"
  req_data :: bool
  req_fetch :: "fetch_impl option"

text \<open>\<open>loopback(req)\<close> copies the properties of \<open>LOOPBACK\<close>, as they are then, onto \<open>req\<close>.\<close>

definition loopback :: "loopback_obj \<Rightarrow> request \<Rightarrow> request" where
  "loopback lb req = req\<lparr>req_fetch := Some (this_fetch lb)\<rparr>"

text \<open>The receiver that a loopback method sees when it is called on the request.\<close>

definition request_this :: "request \<Rightarrow> loopback_obj option" where
  "request_this req =
     map_option (\<lambda>f. \<lparr>this_fetch = f, this_headers = Some (req_headers req)\<rparr>) (req_fetch req)"

text \<open>
  A user handler, by what its call hands to \<open>await\<close>. What the handler does to the
  response, the store or the database on its own is not part of the wrapper.
\<close>

type_synonym route = "request \<Rightarrow> completion"

text \<open>\<open>await\<close> on the result of a call: a thrown exception counts as a rejection.\<close>

fun await :: "completion \<Rightarrow> promise" where
  "await (Return v) = Some (Fulfilled v)"
| "await (Throw e) = Some (Rejected e)"
| "await (ReturnPromise p) = p"

fun typeof :: "jsval \<Rightarrow> string" where
  "typeof Undefined = ''undefined''"
| "typeof Null = ''object''"
| "typeof (JBool b) = ''boolean''"
| "typeof (JNum n) = ''number''"
| "typeof (JStr s) = ''string''"
| "typeof (JError m) = ''object''"
| "typeof (JArray vs) = ''object''"
| "typeof (JObject ps) = ''object''"

text \<open>What the wrapper does to the console and to the response object, in order.\<close>

datatype effect =
    ConsoleError jsval
  | ResEnd jsval
  | ResJson jsval
  | ResStatus int
  | ResSend string

text \<open>
  The function returned by \<open>apply_route(cfg, route)\<close>, applied to a request while the
  global \<open>LOOPBACK\<close> is \<open>lb\<close>: its effects, and how its own promise settles (\<open>None\<close> when
  the handler's promise never settles). The calls on the response object are taken to
  return normally.
\<close>

definition apply_route :: "loopback_obj \<Rightarrow> route \<Rightarrow> request \<Rightarrow> effect list \<times> promise" where
  "apply_route lb route req =
     (case await (route (loopback lb (req\<lparr>req_data := True\<rparr>))) of
        None \<Rightarrow> ([], None)
      | Some (Fulfilled resp) \<Rightarrow>
          (if typeof resp \<noteq> ''undefined''
           then [if typeof resp = ''string'' then ResEnd resp else ResJson resp]
           else [],
           Some (Fulfilled Undefined))
      | Some (Rejected e) \<Rightarrow>
          ([ConsoleError e, ResStatus 500, ResSend (''Error! '' @ ToString e)],
           Some (Fulfilled Undefined)))"

text \<open>A response has been sent when a call that writes the body has been made.\<close>

fun sends :: "effect \<Rightarrow> bool" where
  "sends (ResEnd v) = True"
| "sends (ResJson v) = True"
| "sends (ResSend s) = True"
| "sends (ResStatus n) = False"
| "sends (ConsoleError e) = False"

definition responds :: "effect list \<Rightarrow> bool" where
  "responds effs = list_ex sends effs"

section \<open>The database attachment\<close>

text \<open>
  The SQL text that \<open>dump_table\<close> hands to \<open>this.all\<close>. An omitted argument is \<open>None\<close>;
  \<open>if (offset)\<close> also skips the number \<open>0\<close>.
\<close>

definition dump_table :: "string \<Rightarrow> int option \<Rightarrow> int option \<Rightarrow> string" where
  "dump_table name limit offset =
     (let sql = ''SELECT * FROM '' @ name;
          sql = (case offset of
                   None \<Rightarrow> sql
                 | Some off \<Rightarrow> if off \<noteq> 0 then sql @ '' OFFSET '' @ Number_toString off else sql);
          sql = (case limit of
                   None \<Rightarrow> sql
                 | Some lim \<Rightarrow> if lim \<noteq> 0 then sql @ '' LIMIT '' @ Number_toString lim else sql)
      in sql)"

record db_config =
  db_url :: string
  db_migrations :: "string option"

text \<open>
  The calls that startup makes on its collaborators, in the order it makes them.
  \<open>ServerStarted\<close> is the callback of \<open>app.listen\<close>, which logs that the server started;
  the HTTP server is taken to bind its port.
\<close>

datatype event =
    SqliteVerbose
  | DbOpen string
  | DbMigrate string
  | AssignDumpTable
  | AppUse string
  | AppRoute string string
  | AppListen int
  | ServerStarted int

datatype startup_error = OpenFailed | MigrateFailed

text \<open>The database collaborator: whether opening a file and running a migration folder succeed.\<close>

record database_env =
  open_ok :: "string \<Rightarrow> bool"
  migrate_ok :: "string \<Rightarrow> bool"

definition sqlite :: "database_env \<Rightarrow> db_config \<Rightarrow> event list \<times> startup_error option" where
  "sqlite env db =
     (if \<not> open_ok env (db_url db) then ([SqliteVerbose, DbOpen (db_url db)], Some OpenFailed)
      else
        (case db_migrations db of
           Some m \<Rightarrow>
             (if m \<noteq> [] then
                (if \<not> migrate_ok env m
                 then ([SqliteVerbose, DbOpen (db_url db), DbMigrate m], Some MigrateFailed)
                 else ([SqliteVerbose, DbOpen (db_url db), DbMigrate m, AssignDumpTable], None))
              else ([SqliteVerbose, DbOpen (db_url db), AssignDumpTable], None))
         | None \<Rightarrow> ([SqliteVerbose, DbOpen (db_url db), AssignDumpTable], None)))"

section \<open>Startup\<close>

text \<open>
  The configuration: \<open>cfg_routes\<close> lists the paths, and under each path its methods, in
  the order \<open>for ... in\<close> visits them.
\<close>

record config =
  cfg_port :: "int option"
  cfg_data :: "store option"
  cfg_db :: "db_config option"
  cfg_routes :: "(string \<times> (string \<times> route) list) list"

definition route_events :: "(string \<times> (string \<times> route) list) list \<Rightarrow> event list" where
  "route_events routes =
     concat (map (\<lambda>(path, rc). map (\<lambda>(method, r). AppRoute method path) rc) routes)"

text \<open>
  \<open>apply_app\<close> is the source's \<open>apply\<close>, which is a keyword here. It leaves behind the
  calls made, the global \<open>LOOPBACK\<close> and the store after the init block, and the failure
  that rejected its promise, if any.
\<close>

record startup =
  st_events :: "event list"
  st_loopback :: loopback_obj
  st_data :: store
  st_error :: "startup_error option"

definition port :: "config \<Rightarrow> int" where
  "port cfg = (case cfg_port cfg of None \<Rightarrow> 8000 | Some p \<Rightarrow> if p \<noteq> 0 then p else 8000)"

definition apply_app :: "database_env \<Rightarrow> loopback_obj \<Rightarrow> config \<Rightarrow> startup" where
  "apply_app env lb cfg =
     (let data = (case cfg_data cfg of None \<Rightarrow> Map.empty | Some d \<Rightarrow> d);
          lb' = lb\<lparr>this_fetch := ViaLocalhost (port cfg)\<rparr>;
          (db_events, db_error) =
            (case cfg_db cfg of
               None \<Rightarrow> ([], None)
             | Some db \<Rightarrow>
                 (if db_url db \<noteq> [] then
                    (case sqlite env db of
                       (evs, Some e) \<Rightarrow> (evs, Some e)
                     | (evs, None) \<Rightarrow> (evs @ [AppUse ''sqlite''], None))
                  else ([], None)))
      in case db_error of
           Some e \<Rightarrow>
             \<lparr>st_events = db_events, st_loopback = lb', st_data = data, st_error = Some e\<rparr>
         | None \<Rightarrow>
             \<lparr>st_events =
                db_events @ [AppUse ''morgan'', AppUse ''bodyParser.json'']
                  @ route_events (cfg_routes cfg)
                  @ [AppListen (port cfg), ServerStarted (port cfg)],
              st_loopback = lb', st_data = data, st_error = None\<rparr>)"





section \<open>Inputs for the examples\<close>



abbreviation bare_cfg :: config where
  "bare_cfg \<equiv> \<lparr>cfg_port = Some 8000, cfg_data = None, cfg_db = None, cfg_routes = []\<rparr>"

abbreviation default_port_cfg :: config where
  "default_port_cfg \<equiv> \<lparr>cfg_port = None, cfg_data = None, cfg_db = None, cfg_routes = []\<rparr>"

abbreviation sqlite_works :: database_env where
  "sqlite_works \<equiv> \<lparr>open_ok = (\<lambda>u. True), migrate_ok = (\<lambda>m. True)\<rparr>"


abbreviation plain_request :: request where
  "plain_request \<equiv> \<lparr>req_headers = [], req_data = False, req_fetch = None\<rparr>"

abbreviation not_found_json :: response where
  "not_found_json \<equiv>
     \<lparr>resp_status = 404, resp_content_type = Some ''application/json; charset=utf-8'',
      resp_body = ''[1,2]''\<rparr>"

abbreviation server_error_html :: response where
  "server_error_html \<equiv>
     \<lparr>resp_status = 500, resp_content_type = Some ''text/html; charset=utf-8'',
      resp_body = ''Error! Error: boom''\<rparr>"

section \<open>Properties of the keyed data store\<close>

lemma lookup_upd: "lookup (data(key \<mapsto> v)) key = v"
  by (simp add: lookup_def)


lemma data_fn_read:
  "lookup data key \<noteq> Undefined \<Longrightarrow> data_fn data key def None = (Returned (lookup data key), data)"
  by (simp add: data_fn_def)

lemma data_fn_sync_update:
  "lookup data key \<noteq> Undefined \<Longrightarrow> f (lookup data key) = Return out \<Longrightarrow>
   data_fn data key def (Some f) = (Returned out, data(key \<mapsto> out))"
  by (simp add: data_fn_def)

lemma data_fn_async_update:
  "lookup data key \<noteq> Undefined \<Longrightarrow> f (lookup data key) = ReturnPromise out \<Longrightarrow>
   data_fn data key def (Some f) = (Awaiting out, data)"
  by (simp add: data_fn_def)




text \<open>
  C8: when the key \<open>k\<close> holds the number \<open>n\<close> and the closure maps \<open>n\<close> to \<open>n + 1\<close>
  without a promise, as \<open>v => v + 1\<close> does, the call returns \<open>n + 1\<close> whatever the
  default \<open>d1\<close> is and stores \<open>n + 1\<close> under \<open>k\<close>; a read of \<open>k\<close> in the new store, and a
  later call with no default and no update, give \<open>n + 1\<close>.
\<close>

theorem data_fn_sync_increment:
  "data k = Some (JNum n) \<Longrightarrow> upd (JNum n) = Return (JNum (n + 1)) \<Longrightarrow>
     data_fn data k d1 (Some upd) = (Returned (JNum (n + 1)), data(k \<mapsto> JNum (n + 1))) \<and>
     lookup (data(k \<mapsto> JNum (n + 1))) k = JNum (n + 1) \<and>
     data_fn (data(k \<mapsto> JNum (n + 1))) k Undefined None
       = (Returned (JNum (n + 1)), data(k \<mapsto> JNum (n + 1)))"
proof -
  assume a: "data k = Some (JNum n)" and u: "upd (JNum n) = Return (JNum (n + 1))"
  from a have l: "lookup data k = JNum n" by (simp add: lookup_def)
  have 1: "data_fn data k d1 (Some upd) = (Returned (JNum (n + 1)), data(k \<mapsto> JNum (n + 1)))"
    using data_fn_sync_update [of data k upd "JNum (n + 1)" d1] l u by simp
  have 2: "data_fn (data(k \<mapsto> JNum (n + 1))) k Undefined None
       = (Returned (JNum (n + 1)), data(k \<mapsto> JNum (n + 1)))"
    using data_fn_read [of "data(k \<mapsto> JNum (n + 1))" k Undefined] by (simp add: lookup_upd)
  show ?thesis using 1 2 by (simp add: lookup_upd)
qed

text \<open>C8, for a counter holding \<open>41\<close>.\<close>

theorem data_fn_sync_increment_witness:
  "[''hits'' \<mapsto> JNum 41] ''hits'' = Some (JNum 41) \<and>
   (\<lambda>v. case v of JNum m \<Rightarrow> Return (JNum (m + 1)) | _ \<Rightarrow> Throw (JError ''not a number''))
      (JNum 41) = Return (JNum (41 + 1)) \<and>
   data_fn [''hits'' \<mapsto> JNum 41] ''hits'' (JNum 0)
      (Some (\<lambda>v. case v of JNum m \<Rightarrow> Return (JNum (m + 1)) | _ \<Rightarrow> Throw (JError ''not a number'')))
     = (Returned (JNum 42), [''hits'' \<mapsto> JNum 42]) \<and>
   lookup [''hits'' \<mapsto> JNum 42] ''hits'' = JNum 42 \<and>
   data_fn [''hits'' \<mapsto> JNum 42] ''hits'' Undefined None
     = (Returned (JNum 42), [''hits'' \<mapsto> JNum 42])"
  using data_fn_sync_increment [of "[''hits'' \<mapsto> JNum 41]" "''hits''" 41
      "\<lambda>v. case v of JNum m \<Rightarrow> Return (JNum (m + 1)) | _ \<Rightarrow> Throw (JError ''not a number'')"
      "JNum 0"]
  by simp

text \<open>
  C2: when the key \<open>k\<close> holds a value (one that is not \<open>undefined\<close>) and the update
  closure returns a promise that is rejected with \<open>e\<close>, the call writes nothing and
  returns a promise awaiting the closure's; when the rejection arrives, whatever the
  store \<open>later\<close> is by then, the store is left as it is and the caller's promise is
  rejected, with \<open>e?.toString()\<close>.
\<close>

theorem data_fn_async_failure:
  "lookup data k \<noteq> Undefined \<Longrightarrow>
   upd (lookup data k) = ReturnPromise (Some (Rejected e)) \<Longrightarrow>
     data_fn data k d (Some upd) = (Awaiting (Some (Rejected e)), data) \<and>
     data_fn_settle later k (Some (Rejected e)) = Some (Rejected (optional_toString e), later)"
  by (simp add: data_fn_async_update data_fn_settle_def)

text \<open>C2, for a counter holding \<open>1\<close> and an update rejected with \<open>new Error("boom")\<close>.\<close>

theorem data_fn_async_failure_witness:
  "lookup [''n'' \<mapsto> JNum 1] ''n'' \<noteq> Undefined \<and>
   (\<lambda>v. ReturnPromise (Some (Rejected (JError ''boom'')))) (lookup [''n'' \<mapsto> JNum 1] ''n'')
     = ReturnPromise (Some (Rejected (JError ''boom''))) \<and>
   data_fn [''n'' \<mapsto> JNum 1] ''n'' (JNum 0)
       (Some (\<lambda>v. ReturnPromise (Some (Rejected (JError ''boom'')))))
     = (Awaiting (Some (Rejected (JError ''boom''))), [''n'' \<mapsto> JNum 1]) \<and>
   data_fn_settle [''n'' \<mapsto> JNum 1] ''n'' (Some (Rejected (JError ''boom'')))
     = Some (Rejected (JStr ''Error: boom''), [''n'' \<mapsto> JNum 1])"
  using data_fn_async_failure [of "[''n'' \<mapsto> JNum 1]" "''n''"
      "\<lambda>v. ReturnPromise (Some (Rejected (JError ''boom'')))" "JError ''boom''" "JNum 0"
      "[''n'' \<mapsto> JNum 1]"]
  by (simp add: lookup_def optional_toString_def)



section \<open>Properties of the wrapped handler\<close>

lemma typeof_undefined: "typeof v = ''undefined'' \<longleftrightarrow> v = Undefined"
  by (cases v) simp_all

lemma typeof_string: "typeof v = ''string'' \<longleftrightarrow> (\<exists>s. v = JStr s)"
  by (cases v) simp_all

text \<open>
  C3, as stated, fails on a handler that returns \<open>undefined\<close>: the guard
  \<open>typeof resp !== "undefined"\<close> skips the call on the response, so the wrapper calls
  nothing on it and no response, empty or other, is sent by the wrapper.
\<close>

theorem apply_route_undefined_sends_nothing:
  "fst (apply_route LOOPBACK (\<lambda>req. Return Undefined)
          plain_request) = [] \<and>
   \<not> responds (fst (apply_route LOOPBACK (\<lambda>req. Return Undefined) plain_request))"
  by (simp add: apply_route_def responds_def)

text \<open>
  C3 (amended): for every result \<open>resp\<close> that the handler returns, or that the promise
  it returns is fulfilled with, the wrapper completes normally; on \<open>undefined\<close> it makes
  no call on the response (sending one is left to the handler, which holds \<open>res\<close>); on
  a string it calls \<open>res.end\<close> with that string as it is; on any other value it calls
  \<open>res.json\<close> with that value.
\<close>

theorem apply_route_normalizes:
  "await (route (loopback lb (req\<lparr>req_data := True\<rparr>))) = Some (Fulfilled resp) \<Longrightarrow>
     snd (apply_route lb route req) = Some (Fulfilled Undefined) \<and>
     (resp = Undefined \<longrightarrow> fst (apply_route lb route req) = []) \<and>
     (\<forall>s. resp = JStr s \<longrightarrow> fst (apply_route lb route req) = [ResEnd (JStr s)]) \<and>
     (resp \<noteq> Undefined \<and> (\<forall>s. resp \<noteq> JStr s) \<longrightarrow>
        fst (apply_route lb route req) = [ResJson resp])"
  by (auto simp: apply_route_def typeof_undefined typeof_string)

text \<open>C3, for handlers that return \<open>"Hello"\<close>, a promise of \<open>{a: 1}\<close>, and nothing.\<close>

theorem apply_route_normalizes_witness:
  "await ((\<lambda>r. Return (JStr ''Hello'')) (loopback LOOPBACK
      (plain_request\<lparr>req_data := True\<rparr>)))
     = Some (Fulfilled (JStr ''Hello'')) \<and>
   fst (apply_route LOOPBACK (\<lambda>r. Return (JStr ''Hello''))
      plain_request) = [ResEnd (JStr ''Hello'')] \<and>
   await ((\<lambda>r. ReturnPromise (Some (Fulfilled (JObject [(''a'', JNum 1)])))) (loopback LOOPBACK
      (plain_request\<lparr>req_data := True\<rparr>)))
     = Some (Fulfilled (JObject [(''a'', JNum 1)])) \<and>
   fst (apply_route LOOPBACK (\<lambda>r. ReturnPromise (Some (Fulfilled (JObject [(''a'', JNum 1)])))) plain_request)
     = [ResJson (JObject [(''a'', JNum 1)])] \<and>
   await ((\<lambda>r. Return Undefined) (loopback LOOPBACK
      (plain_request\<lparr>req_data := True\<rparr>)))
     = Some (Fulfilled Undefined) \<and>
   fst (apply_route LOOPBACK (\<lambda>r. Return Undefined)
      plain_request) = []"
  using apply_route_normalizes [of "\<lambda>r. Return (JStr ''Hello'')" LOOPBACK
          plain_request "JStr ''Hello''"]
        apply_route_normalizes [of "\<lambda>r. ReturnPromise (Some (Fulfilled (JObject [(''a'', JNum 1)])))"
          LOOPBACK plain_request
          "JObject [(''a'', JNum 1)]"]
        apply_route_normalizes [of "\<lambda>r. Return Undefined" LOOPBACK
          plain_request Undefined]
  by simp



section \<open>Properties of the loopback client\<close>

lemma map_of_assign: "map_of (assign hs k v) k = Some v"
  by (induction hs) auto

text \<open>
  Inside a request, once \<open>apply\<close> has installed its \<open>fetch\<close>, a loopback call carries the
  user agent of the request on.
\<close>

lemma request_fetch_forwards_user_agent:
  "map_of (req_headers req) ''user-agent'' = Some ua \<Longrightarrow> ua \<noteq> [] \<Longrightarrow>
   request_this (loopback (lb\<lparr>this_fetch := ViaLocalhost p\<rparr>) req) = Some this \<Longrightarrow>
     \<exists>i hs. fetch this path init = (''http://localhost:'' @ Number_toString p @ path, Some i) \<and>
       init_headers i = Some hs \<and> map_of hs ''user-agent'' = Some ua"
  by (auto simp: request_this_def loopback_def fetch_def user_agent_def Let_def map_of_assign)

lemma st_loopback_apply_app:
  "st_loopback (apply_app env lb cfg) = lb\<lparr>this_fetch := ViaLocalhost (port cfg)\<rparr>"
  by (simp add: apply_app_def Let_def split: prod.splits option.splits)

lemma handle_body_status: "handle_body (resp\<lparr>resp_status := status\<rparr>) = handle_body resp"
  by (simp add: handle_body_def)

lemma handle_body_cases:
  "handle_body resp =
     (if includes_str (case resp_content_type resp of None \<Rightarrow> [] | Some t \<Rightarrow> t) ''application/json''
      then ReadJson (resp_body resp) else ReadText (resp_body resp))"
  by (simp add: handle_body_def split: option.splits)

text \<open>
  C6, as stated, fails once \<open>apply\<close> has run: its init block assigns a new \<open>fetch\<close> over
  the one of \<open>LOOPBACK\<close>, so a call on \<open>LOOPBACK\<close> itself, outside any request, goes to
  \<open>http://localhost:8000\<close> followed by the path and carries the user agent \<open>Loopback\<close>.
\<close>

theorem LOOPBACK_after_apply_substitutes:
  "fetch (st_loopback (apply_app sqlite_works LOOPBACK bare_cfg))
      ''/hello'' None
     = (''http://localhost:8000/hello'',
        Some \<lparr>init_method = None, init_headers = Some [(''user-agent'', ''Loopback'')],
              init_body = None\<rparr>) \<and>
   fetch (st_loopback (apply_app sqlite_works LOOPBACK bare_cfg))
      ''/hello'' None
     \<noteq> (''/hello'', None)"
  by (simp add: st_loopback_apply_app fetch_def LOOPBACK_def port_def user_agent_def
      Number_toString_def digits.simps)

text \<open>
  C6 (amended): on \<open>LOOPBACK\<close> as the module defines it, that is until \<open>apply\<close> has run,
  \<open>fetch\<close> and the five methods call the platform's \<open>fetch\<close> with the path as given and
  with the init as built, in which no user agent is set. Once \<open>apply\<close> has run, a call
  on a receiver without \<open>headers\<close>, as \<open>LOOPBACK\<close> itself is, goes to
  \<open>http://localhost:\<close>, the port and the path, with the header \<open>user-agent\<close> set to
  \<open>Loopback\<close>.
\<close>

theorem LOOPBACK_fetch_direct_until_apply:
  "fetch LOOPBACK path init = (path, init) \<and>
   LOOPBACK_get net LOOPBACK path = then_handle_body (net (path, None)) \<and>
   LOOPBACK_post net LOOPBACK path body
     = then_handle_body (net (path, Some (json_init ''POST'' body))) \<and>
   LOOPBACK_put net LOOPBACK path body
     = then_handle_body (net (path, Some (json_init ''PUT'' body))) \<and>
   LOOPBACK_patch net LOOPBACK path body
     = then_handle_body (net (path, Some (json_init ''PATCH'' body))) \<and>
   LOOPBACK_delete net LOOPBACK path
     = then_handle_body (net (path,
         Some \<lparr>init_method = Some ''DELETE'', init_headers = None, init_body = None\<rparr>)) \<and>
   (this_headers lb = None \<longrightarrow>
      fst (fetch (st_loopback (apply_app env lb cfg)) path init)
        = ''http://localhost:'' @ Number_toString (port cfg) @ path \<and>
      (\<exists>i hs. snd (fetch (st_loopback (apply_app env lb cfg)) path init) = Some i \<and>
         init_headers i = Some hs \<and> map_of hs ''user-agent'' = Some ''Loopback''))"
  by (simp add: st_loopback_apply_app fetch_def LOOPBACK_def LOOPBACK_get_def LOOPBACK_post_def
      LOOPBACK_put_def LOOPBACK_patch_def LOOPBACK_delete_def user_agent_def Let_def
      map_of_assign)

text \<open>C6, for a full URL passed to \<open>LOOPBACK\<close> before and after \<open>apply\<close> with the default port.\<close>

theorem LOOPBACK_fetch_direct_until_apply_witness:
  "fetch LOOPBACK ''http://localhost:8000/hello'' None = (''http://localhost:8000/hello'', None) \<and>
   this_headers LOOPBACK = None \<and>
   fst (fetch (st_loopback (apply_app sqlite_works LOOPBACK default_port_cfg))
      ''http://localhost:8000/hello'' None)
     = ''http://localhost:8000http://localhost:8000/hello''"
  using LOOPBACK_fetch_direct_until_apply [where path = "''http://localhost:8000/hello''"
      and init = None and lb = LOOPBACK
      and env = sqlite_works
      and cfg = default_port_cfg]
  by (simp add: LOOPBACK_def port_def Number_toString_def digits.simps)

text \<open>
  C7: whenever the platform's \<open>fetch\<close> answers a loopback call (\<open>get\<close>, \<open>post\<close>, \<open>put\<close>,
  \<open>patch\<close>, \<open>delete\<close>) with a response, the caller gets what \<open>handle_body\<close> reads from
  it, and not a failure. \<open>handle_body\<close> does not depend on the status; it reads the body
  as JSON when the content type includes \<open>application/json\<close>, and as text otherwise,
  also when the header is absent.
\<close>

theorem loopback_body_by_content_type:
  "(net (fetch this path None) = Inr resp \<longrightarrow>
      LOOPBACK_get net this path = Inr (handle_body resp)) \<and>
   (net (fetch this path (Some (json_init ''POST'' body))) = Inr resp \<longrightarrow>
      LOOPBACK_post net this path body = Inr (handle_body resp)) \<and>
   (net (fetch this path (Some (json_init ''PUT'' body))) = Inr resp \<longrightarrow>
      LOOPBACK_put net this path body = Inr (handle_body resp)) \<and>
   (net (fetch this path (Some (json_init ''PATCH'' body))) = Inr resp \<longrightarrow>
      LOOPBACK_patch net this path body = Inr (handle_body resp)) \<and>
   (net (fetch this path
           (Some \<lparr>init_method = Some ''DELETE'', init_headers = None, init_body = None\<rparr>))
        = Inr resp \<longrightarrow>
      LOOPBACK_delete net this path = Inr (handle_body resp)) \<and>
   handle_body (resp\<lparr>resp_status := status\<rparr>) = handle_body resp \<and>
   handle_body resp =
     (if includes_str (case resp_content_type resp of None \<Rightarrow> [] | Some t \<Rightarrow> t)
           ''application/json''
      then ReadJson (resp_body resp) else ReadText (resp_body resp))"
  using handle_body_status [of status resp] handle_body_cases [of resp]
  by (simp add: LOOPBACK_get_def LOOPBACK_post_def LOOPBACK_put_def LOOPBACK_patch_def
      LOOPBACK_delete_def then_handle_body_def)

text \<open>C7, for a \<open>404\<close> response with a JSON body and a \<open>500\<close> response with an HTML body.\<close>

theorem loopback_body_by_content_type_witness:
  "(\<lambda>c. Inr not_found_json) (fetch LOOPBACK ''/missing'' None)
     = (Inr not_found_json :: jsval + response) \<and>
   LOOPBACK_get
      (\<lambda>c. Inr not_found_json) LOOPBACK ''/missing''
     = Inr (ReadJson ''[1,2]'') \<and>
   (\<lambda>c. Inr server_error_html)
      (fetch LOOPBACK ''/broken'' (Some (json_init ''POST'' (JNum 1))))
     = (Inr server_error_html :: jsval + response) \<and>
   LOOPBACK_post
      (\<lambda>c. Inr server_error_html) LOOPBACK ''/broken'' (JNum 1)
     = Inr (ReadText ''Error! Error: boom'')"
  using loopback_body_by_content_type [where net =
      "\<lambda>c. Inr not_found_json" and this = LOOPBACK and path = "''/missing''"
      and resp = not_found_json]
    loopback_body_by_content_type [where net =
      "\<lambda>c. Inr server_error_html" and this = LOOPBACK and path = "''/broken''"
      and body = "JNum 1"
      and resp = server_error_html]
  by simp

section \<open>Properties of the database attachment and of startup\<close>

text \<open>
  C9: for every table name, positive limit \<open>lim\<close> and positive offset \<open>off\<close>,
  \<open>dump_table\<close> hands to the database the text \<open>SELECT * FROM\<close> with the name, then
  \<open>OFFSET\<close> with \<open>off\<close>, then \<open>LIMIT\<close> with \<open>lim\<close>: the offset clause stands before the
  limit clause.
\<close>

theorem dump_table_offset_before_limit:
  "0 < lim \<Longrightarrow> 0 < off \<Longrightarrow>
     dump_table name (Some lim) (Some off) =
       ''SELECT * FROM '' @ name @ '' OFFSET '' @ Number_toString off
         @ '' LIMIT '' @ Number_toString lim"
  by (simp add: dump_table_def)

text \<open>C9, for \<open>dump_table("T", 10, 5)\<close>.\<close>

theorem dump_table_offset_before_limit_witness:
  "(0::int) < 10 \<and> (0::int) < 5 \<and>
   dump_table ''T'' (Some 10) (Some 5) = ''SELECT * FROM T OFFSET 5 LIMIT 10''"
  using dump_table_offset_before_limit [of 10 5 "''T''"]
  by (simp add: Number_toString_def digits.simps)













end
